theory Spec2Isabelle
  imports Main
begin

section \<open>Virtual-environment inventory of devenv-mcp\<close>

text \<open>
  A shallow embedding of the discovery and inspection routines of
  \<^verbatim>\<open>src/devenv_mcp/tools/venv.py\<close>, with the two helpers they call:
  \<^verbatim>\<open>utils/platform.py\<close> (\<^verbatim>\<open>PlatformHelper\<close>) and
  \<^verbatim>\<open>utils/commands.py\<close> (\<^verbatim>\<open>run_command\<close>).

  Everything the Python obtains from outside itself is an explicit argument: the
  file system as it answers \<^verbatim>\<open>pathlib\<close> queries, the outcome of each subprocess, and
  the two standard-library functions \<^verbatim>\<open>json.loads\<close> and \<^verbatim>\<open>fnmatch.fnmatch\<close>.
  Exceptions are values: a function that may raise returns \<open>py_exn + 'a\<close>, with
  \<open>Inl\<close> for the exception that escapes it. Every query of the file system may
  raise, and none of the routines catches what a query raises.
\<close>

subsection \<open>Python values and exceptions\<close>

datatype py_exn =
    TimeoutError
  | FileNotFoundError string
  | PermissionError
  | NotADirectoryError
  | OSError
  | RuntimeError
  | JSONDecodeError
  | RecursionError
  | TypeError

text \<open>The objects \<^verbatim>\<open>json.loads\<close> can return. A dict is kept as its items.\<close>

datatype py_value =
    PyNone
  | PyBool bool
  | PyInt int
  | PyFloat string
  | PyStr string
  | PyList "py_value list"
  | PyDict "(string \<times> py_value) list"

text \<open>
  \<^verbatim>\<open>len(x)\<close>: defined on strings, lists and dicts (the number of distinct keys);
  on \<^verbatim>\<open>None\<close>, booleans and numbers it raises \<^verbatim>\<open>TypeError\<close>.
\<close>

fun py_len :: "py_value \<Rightarrow> py_exn + nat" where
  "py_len (PyList xs) = Inr (length xs)"
| "py_len (PyDict kvs) = Inr (length (remdups (map fst kvs)))"
| "py_len (PyStr s) = Inr (length s)"
| "py_len PyNone = Inl TypeError"
| "py_len (PyBool b) = Inl TypeError"
| "py_len (PyInt i) = Inl TypeError"
| "py_len (PyFloat f) = Inl TypeError"

text \<open>
  \<^verbatim>\<open>a and b\<close> on two tests that may raise: \<open>b\<close> counts only when \<open>a\<close> answers
  \<^verbatim>\<open>True\<close>, so what \<open>b\<close> would raise is not raised when \<open>a\<close> answers \<^verbatim>\<open>False\<close>.
\<close>

definition py_and :: "py_exn + bool \<Rightarrow> py_exn + bool \<Rightarrow> py_exn + bool" where
  "py_and a b = (case a of Inl e \<Rightarrow> Inl e | Inr x \<Rightarrow> if x then b else Inr False)"

text \<open>
  \<^verbatim>\<open>str.strip()\<close>. A \<^typ>\<open>char\<close> stands for a code point below 256; these are the
  ones for which \<^verbatim>\<open>str.isspace\<close> holds.
\<close>

definition py_isspace :: "char \<Rightarrow> bool" where
  "py_isspace c \<longleftrightarrow>
     (let n = (of_char c :: nat)
      in (9 \<le> n \<and> n \<le> 13) \<or> (28 \<le> n \<and> n \<le> 32) \<or> n = 133 \<or> n = 160)"

definition strip :: "string \<Rightarrow> string" where
  "strip s = rev (dropWhile py_isspace (rev (dropWhile py_isspace s)))"

subsection \<open>Paths and the file system\<close>

text \<open>
  A \<^verbatim>\<open>Path\<close> is the list of its segments below the root; every path the routines
  build is absolute. \<open>p @ [n]\<close> is \<^verbatim>\<open>p / n\<close> for a single segment \<open>n\<close>.
\<close>

type_synonym path = "string list"

definition path_name :: "path \<Rightarrow> string" where
  "path_name p = (if p = [] then [] else last p)"

definition str_of_path :: "path \<Rightarrow> string" where
  "str_of_path p = (if p = [] then ''/'' else concat (map (\<lambda>s. CHR ''/'' # s) p))"

text \<open>
  The answers of the file system at one moment. \<^verbatim>\<open>Path.exists\<close> and \<^verbatim>\<open>Path.is_dir\<close>
  answer \<^verbatim>\<open>False\<close> for a path that is simply missing and raise the other errors of
  \<^verbatim>\<open>stat\<close> (a name that is too long, a directory that may not be searched).
  \<^verbatim>\<open>Path.iterdir\<close> gives the entry names in directory-listing order, or raises.
  \<^verbatim>\<open>Path(p).expanduser().resolve()\<close>, on a path and on a string argument, gives a
  path or raises (a loop of symbolic links, a home directory that is not known).
\<close>

record filesystem =
  fs_exists :: "path \<Rightarrow> py_exn + bool"
  fs_is_dir :: "path \<Rightarrow> py_exn + bool"
  fs_iterdir :: "path \<Rightarrow> py_exn + string list"
  fs_resolve :: "path \<Rightarrow> py_exn + path"
  fs_resolve_str :: "string \<Rightarrow> py_exn + path"

subsection \<open>Subprocesses\<close>

text \<open>
  What spawning a subprocess and waiting for it under a timeout leads to: it exits
  (return code, decoded standard output and error), or an exception is raised
  (\<open>TimeoutError\<close> by \<^verbatim>\<open>asyncio.wait_for\<close>, \<open>FileNotFoundError\<close> or another error by
  \<^verbatim>\<open>create_subprocess_exec\<close>).
\<close>

datatype proc_outcome =
    Exited "int option" string string
  | Raises py_exn

datatype platform = Windows | Macos | Linux

text \<open>
  The host: the platform, the home directory (\<^verbatim>\<open>Path.home()\<close>) and the current
  directory (\<^verbatim>\<open>Path.cwd()\<close>), each of which may raise, the behaviour of subprocesses
  (outcome and file system afterwards, for an argument vector and a timeout in
  seconds), of \<^verbatim>\<open>mkdir(parents=True, exist_ok=True)\<close>, and the two library functions.
\<close>

record host =
  get_platform :: platform
  get_home_directory :: "py_exn + path"
  cwd :: "py_exn + path"
  spawn :: "filesystem \<Rightarrow> string list \<Rightarrow> nat \<Rightarrow> proc_outcome \<times> filesystem"
  mkdir_parents :: "filesystem \<Rightarrow> path \<Rightarrow> py_exn + filesystem"
  json_loads :: "string \<Rightarrow> py_exn + py_value"
  fnmatch :: "string \<Rightarrow> string \<Rightarrow> bool"

subsection \<open>utils/platform.py\<close>

definition get_venv_python_path :: "host \<Rightarrow> filesystem \<Rightarrow> path \<Rightarrow> py_exn + path" where
  "get_venv_python_path h fs venv_path =
     (case fs_resolve fs venv_path of
        Inl e \<Rightarrow> Inl e
      | Inr venv_path \<Rightarrow>
          if get_platform h = Windows then Inr (venv_path @ [''Scripts'', ''python.exe''])
          else Inr (venv_path @ [''bin'', ''python'']))"

definition get_venv_pip_path :: "host \<Rightarrow> filesystem \<Rightarrow> path \<Rightarrow> py_exn + path" where
  "get_venv_pip_path h fs venv_path =
     (case fs_resolve fs venv_path of
        Inl e \<Rightarrow> Inl e
      | Inr venv_path \<Rightarrow>
          if get_platform h = Windows then Inr (venv_path @ [''Scripts'', ''pip.exe''])
          else Inr (venv_path @ [''bin'', ''pip'']))"

definition get_default_venv_location :: "host \<Rightarrow> py_exn + path" where
  "get_default_venv_location h =
     (case get_home_directory h of
        Inl e \<Rightarrow> Inl e
      | Inr home \<Rightarrow> Inr (home @ [''.venvs'']))"

subsection \<open>utils/commands.py\<close>

text \<open>
  \<^verbatim>\<open>CommandResult\<close>, without its \<^verbatim>\<open>command\<close> field (the shell-quoted argument
  vector, kept for logging only).
\<close>

record CommandResult =
  returncode :: int
  stdout :: string
  stderr :: string

definition success :: "CommandResult \<Rightarrow> bool" where
  "success r \<longleftrightarrow> returncode r = 0"

text \<open>
  \<^verbatim>\<open>run_command(command, timeout=t)\<close> with the defaults \<^verbatim>\<open>check=False\<close>,
  \<^verbatim>\<open>shell=False\<close>: a timeout is logged and raised again, a missing executable
  becomes a result with return code 127, any other exception passes through.
\<close>

definition run_command :: "host \<Rightarrow> filesystem \<Rightarrow> string list \<Rightarrow> nat \<Rightarrow> py_exn + CommandResult" where
  "run_command h fs command timeout =
     (case fst (spawn h fs command timeout) of
        Exited rc out err \<Rightarrow>
          Inr \<lparr>returncode = (case rc of None \<Rightarrow> 0 | Some c \<Rightarrow> c),
               stdout = strip out, stderr = strip err\<rparr>
      | Raises TimeoutError \<Rightarrow> Inl TimeoutError
      | Raises (FileNotFoundError filename) \<Rightarrow>
          Inr \<lparr>returncode = 127, stdout = [],
               stderr = ''Command not found: '' @ filename\<rparr>
      | Raises e \<Rightarrow> Inl e)"

definition after_command :: "host \<Rightarrow> filesystem \<Rightarrow> string list \<Rightarrow> nat \<Rightarrow> filesystem" where
  "after_command h fs command timeout = snd (spawn h fs command timeout)"

subsection \<open>tools/venv.py: the descriptor, the Validator and the Prober\<close>

record VenvInfo =
  name :: string
  path :: string
  python_version :: string
  packages_count :: nat
  is_valid :: bool

text \<open>
  \<^verbatim>\<open>_is_valid_venv\<close>: it answers, or raises what resolving the path or testing the
  interpreter path raises.
\<close>

definition is_valid_venv :: "host \<Rightarrow> filesystem \<Rightarrow> path \<Rightarrow> py_exn + bool" where
  "is_valid_venv h fs venv_path =
     (case get_venv_python_path h fs venv_path of
        Inl e \<Rightarrow> Inl e
      | Inr python_path \<Rightarrow> fs_exists fs python_path)"

text \<open>The version string: the stripped output after the prefix \<^verbatim>\<open>"Python "\<close>.\<close>

definition parse_python_version :: "py_exn + CommandResult \<Rightarrow> string" where
  "parse_python_version version_result =
     (case version_result of
        Inl e \<Rightarrow> ''unknown''
      | Inr r \<Rightarrow>
          if success r then
            (let version_output = strip (stdout r)
             in if take 7 version_output = ''Python '' then drop 7 version_output
                else ''unknown'')
          else ''unknown'')"

text \<open>
  The package count: \<^verbatim>\<open>len(json.loads(stdout))\<close> inside a \<^verbatim>\<open>try\<close> whose only handler
  is for \<^verbatim>\<open>json.JSONDecodeError\<close>; any other exception leaves the function.
\<close>

definition parse_packages_count :: "host \<Rightarrow> py_exn + CommandResult \<Rightarrow> py_exn + nat" where
  "parse_packages_count h packages_result =
     (case packages_result of
        Inl e \<Rightarrow> Inr 0
      | Inr r \<Rightarrow>
          if success r then
            (case json_loads h (stdout r) of
               Inl JSONDecodeError \<Rightarrow> Inr 0
             | Inl e \<Rightarrow> Inl e
             | Inr packages \<Rightarrow> py_len packages)
          else Inr 0)"

text \<open>The two probes: the argument vectors handed to \<^verbatim>\<open>run_command\<close>.\<close>

definition version_cmd :: "path \<Rightarrow> string list" where
  "version_cmd python_path = [str_of_path python_path, ''--version'']"

definition packages_cmd :: "path \<Rightarrow> string list" where
  "packages_cmd pip_path = [str_of_path pip_path, ''list'', ''--format=json'']"

text \<open>
  \<^verbatim>\<open>_get_venv_info\<close>. The first component of the result lists the commands started,
  each with its timeout; the second is the descriptor returned or the exception
  raised. Both paths are computed before the interpreter path is tested.
  \<^verbatim>\<open>asyncio.gather(..., return_exceptions=True)\<close> hands back both outcomes in argument
  order, an exception as a value, so its \<^verbatim>\<open>except\<close> branch is never taken.
\<close>

definition get_venv_info ::
  "host \<Rightarrow> filesystem \<Rightarrow> path \<Rightarrow> (string list \<times> nat) list \<times> (py_exn + VenvInfo)" where
  "get_venv_info h fs venv_path =
     (let name = path_name venv_path;
          path_str = str_of_path venv_path
      in case get_venv_python_path h fs venv_path of
           Inl e \<Rightarrow> ([], Inl e)
         | Inr python_path \<Rightarrow>
        (case get_venv_pip_path h fs venv_path of
           Inl e \<Rightarrow> ([], Inl e)
         | Inr pip_path \<Rightarrow>
        (case fs_exists fs python_path of
           Inl e \<Rightarrow> ([], Inl e)
         | Inr python_exists \<Rightarrow>
             if \<not> python_exists then
               ([], Inr \<lparr>name = name, path = path_str, python_version = ''unknown'',
                         packages_count = 0, is_valid = False\<rparr>)
             else
               (let version_result = run_command h fs (version_cmd python_path) 10;
                    packages_result = run_command h fs (packages_cmd pip_path) 30;
                    python_version = parse_python_version version_result;
                    is_valid =
                      ((case version_result of Inl e \<Rightarrow> False | Inr r \<Rightarrow> success r)
                       \<and> python_version \<noteq> ''unknown'')
                in ([(version_cmd python_path, 10), (packages_cmd pip_path, 30)],
                    case parse_packages_count h packages_result of
                      Inl e \<Rightarrow> Inl e
                    | Inr count \<Rightarrow>
                        Inr \<lparr>name = name, path = path_str,
                             python_version = python_version,
                             packages_count = count, is_valid = is_valid\<rparr>)))))"

subsection \<open>tools/venv.py: the Locator\<close>

text \<open>
  The two \<^verbatim>\<open>for\<close> loops of \<^verbatim>\<open>_discover_venvs\<close>: each candidate that passes the test
  is appended to \<^verbatim>\<open>discovered\<close>; a test that raises ends the loop and the function.
\<close>

fun append_accepted ::
  "(path \<Rightarrow> py_exn + bool) \<Rightarrow> path list \<Rightarrow> path list \<Rightarrow> py_exn + path list" where
  "append_accepted accept [] discovered = Inr discovered"
| "append_accepted accept (p # ps) discovered =
     (case accept p of
        Inl e \<Rightarrow> Inl e
      | Inr accepted \<Rightarrow>
          append_accepted accept ps (if accepted then discovered @ [p] else discovered))"

definition local_venv_names :: "string list" where
  "local_venv_names = [''venv'', ''.venv'']"

text \<open>The tests of the two loops.\<close>

definition accept_local :: "host \<Rightarrow> filesystem \<Rightarrow> path \<Rightarrow> py_exn + bool" where
  "accept_local h fs venv_path =
     py_and (fs_exists fs venv_path)
       (py_and (fs_is_dir fs venv_path) (is_valid_venv h fs venv_path))"

definition accept_global :: "host \<Rightarrow> filesystem \<Rightarrow> path \<Rightarrow> py_exn + bool" where
  "accept_global h fs child = py_and (fs_is_dir fs child) (is_valid_venv h fs child)"

text \<open>The list comprehension that applies the name pattern.\<close>

definition filter_by_name :: "host \<Rightarrow> string \<Rightarrow> path list \<Rightarrow> path list" where
  "filter_by_name h name_pattern discovered =
     filter (\<lambda>venv_path. fnmatch h (path_name venv_path) name_pattern) discovered"

text \<open>
  \<^verbatim>\<open>_discover_venvs\<close>. \<^verbatim>\<open>if name_pattern:\<close> is false for \<^verbatim>\<open>None\<close> and for the empty
  string. Nothing here catches an exception.
\<close>

definition discover_venvs ::
  "host \<Rightarrow> filesystem \<Rightarrow> path \<Rightarrow> bool \<Rightarrow> string option \<Rightarrow> py_exn + path list" where
  "discover_venvs h fs working_dir include_global name_pattern =
     (case append_accepted (accept_local h fs)
             (map (\<lambda>venv_name. working_dir @ [venv_name]) local_venv_names) [] of
        Inl e \<Rightarrow> Inl e
      | Inr discovered \<Rightarrow>
     (case (if include_global then
              (case get_default_venv_location h of
                 Inl e \<Rightarrow> Inl e
               | Inr global_venvs_dir \<Rightarrow>
              (case py_and (fs_exists fs global_venvs_dir)
                      (fs_is_dir fs global_venvs_dir) of
                 Inl e \<Rightarrow> Inl e
               | Inr is_directory \<Rightarrow>
                   if is_directory then
                     (case fs_iterdir fs global_venvs_dir of
                        Inl e \<Rightarrow> Inl e
                      | Inr entries \<Rightarrow>
                          append_accepted (accept_global h fs)
                            (map (\<lambda>entry. global_venvs_dir @ [entry]) entries)
                            discovered)
                   else Inr discovered))
            else Inr discovered) of
        Inl e \<Rightarrow> Inl e
      | Inr discovered \<Rightarrow>
          (case name_pattern of
             None \<Rightarrow> Inr discovered
           | Some pat \<Rightarrow>
               if pat = [] then Inr discovered
               else Inr (filter_by_name h pat discovered))))"

subsection \<open>tools/venv.py: the Fan-out Coordinator\<close>

text \<open>
  \<^verbatim>\<open>asyncio.gather(*aws)\<close> with \<^verbatim>\<open>return_exceptions=False\<close>. The awaitables finish in
  some order, given as the list of their positions. One that finishes with a value
  stores it in the slot of its position; the first one that finishes with an
  exception makes \<^verbatim>\<open>gather\<close> raise it. Once every slot is filled the values are
  returned in slot order; \<open>None\<close> stands for a \<^verbatim>\<open>gather\<close> still waiting.
\<close>

fun gather_run ::
  "nat list \<Rightarrow> (py_exn + 'a) list \<Rightarrow> 'a option list \<Rightarrow> py_exn + 'a option list" where
  "gather_run [] outcomes slots = Inr slots"
| "gather_run (i # order) outcomes slots =
     (if i < length outcomes then
        (case outcomes ! i of
           Inl e \<Rightarrow> Inl e
         | Inr v \<Rightarrow> gather_run order outcomes (slots[i := Some v]))
      else gather_run order outcomes slots)"

definition gather :: "nat list \<Rightarrow> (py_exn + 'a) list \<Rightarrow> (py_exn + 'a list) option" where
  "gather order outcomes =
     (case gather_run order outcomes (replicate (length outcomes) None) of
        Inl e \<Rightarrow> Some (Inl e)
      | Inr slots \<Rightarrow>
          if list_all (\<lambda>s. s \<noteq> None) slots then Some (Inr (map the slots)) else None)"

text \<open>
  The part of \<^verbatim>\<open>devenv_venv_list\<close> after its working directory is settled: the
  registry location is computed for a message when the registry is included, then
  discovery runs and the probes are gathered, in the order of completion given.
  The messages sent to \<^verbatim>\<open>ctx\<close> are left out. All probes read the file system as it
  is when they are created.
\<close>

definition list_in ::
  "host \<Rightarrow> filesystem \<Rightarrow> path \<Rightarrow> bool \<Rightarrow> string option \<Rightarrow> nat list
     \<Rightarrow> (py_exn + VenvInfo list) option" where
  "list_in h fs work_path include_global name_pattern order =
     (case (if include_global then get_default_venv_location h else Inr []) of
        Inl e \<Rightarrow> Some (Inl e)
      | Inr global_path \<Rightarrow>
     (case discover_venvs h fs work_path include_global name_pattern of
        Inl e \<Rightarrow> Some (Inl e)
      | Inr venv_paths \<Rightarrow>
          if venv_paths = [] then Some (Inr [])
          else gather order (map (\<lambda>p. snd (get_venv_info h fs p)) venv_paths)))"

text \<open>
  \<^verbatim>\<open>devenv_venv_list\<close>: the working directory is resolved and tested; when the test
  answers that it does not exist, the current directory takes its place.
\<close>

definition devenv_venv_list ::
  "host \<Rightarrow> filesystem \<Rightarrow> string \<Rightarrow> bool \<Rightarrow> string option \<Rightarrow> nat list
     \<Rightarrow> (py_exn + VenvInfo list) option" where
  "devenv_venv_list h fs working_dir include_global name_pattern order =
     (case fs_resolve_str fs working_dir of
        Inl e \<Rightarrow> Some (Inl e)
      | Inr work_path \<Rightarrow>
     (case fs_exists fs work_path of
        Inl e \<Rightarrow> Some (Inl e)
      | Inr work_path_exists \<Rightarrow>
     (case (if \<not> work_path_exists then cwd h else Inr work_path) of
        Inl e \<Rightarrow> Some (Inl e)
      | Inr work_path \<Rightarrow>
          list_in h fs work_path include_global name_pattern order)))"

subsection \<open>tools/venv.py: creation\<close>

text \<open>
  The part of \<^verbatim>\<open>devenv_venv_create\<close> that runs when the target does not exist yet:
  the interpreter is checked, the environment is created and then probed.
\<close>

definition create_new ::
  "host \<Rightarrow> filesystem \<Rightarrow> string \<Rightarrow> path \<Rightarrow> string option \<Rightarrow> bool \<Rightarrow> py_exn + VenvInfo" where
  "create_new h fs name_arg target_path python_executable with_pip =
     (let python_executable =
            (case python_executable of None \<Rightarrow> ''python'' | Some e \<Rightarrow> e);
          check_cmd = [python_executable, ''--version'']
      in case run_command h fs check_cmd 10 of
           Inl e \<Rightarrow> Inl e
         | Inr python_check \<Rightarrow>
             if \<not> success python_check then
               Inr \<lparr>name = name_arg, path = str_of_path target_path,
                    python_version =
                      ''Error: Python executable '' @ [CHR 0x27]
                        @ python_executable @ [CHR 0x27] @ '' not found'',
                    packages_count = 0, is_valid = False\<rparr>
             else
               (let fs = after_command h fs check_cmd 10;
                    venv_cmd =
                      [python_executable, ''-m'', ''venv'']
                        @ (if \<not> with_pip then [''--without-pip''] else [])
                        @ [str_of_path target_path]
                in case run_command h fs venv_cmd 120 of
                     Inl e \<Rightarrow> Inl e
                   | Inr result \<Rightarrow>
                       if \<not> success result then
                         (let error_msg =
                                (if stderr result \<noteq> [] then stderr result
                                 else if stdout result \<noteq> [] then stdout result
                                 else ''Unknown error'')
                          in Inr \<lparr>name = name_arg, path = str_of_path target_path,
                                  python_version = ''Error: '' @ error_msg,
                                  packages_count = 0, is_valid = False\<rparr>)
                       else
                         snd (get_venv_info h
                                (after_command h fs venv_cmd 120) target_path)))"

text \<open>
  \<^verbatim>\<open>devenv_venv_create\<close>; \<open>name_arg\<close> and \<open>path_arg\<close> are its arguments \<^verbatim>\<open>name\<close> and
  \<^verbatim>\<open>path\<close>. The file system changes with \<^verbatim>\<open>mkdir\<close> and with each command run.
\<close>

definition devenv_venv_create ::
  "host \<Rightarrow> filesystem \<Rightarrow> string \<Rightarrow> string option \<Rightarrow> string option \<Rightarrow> bool
     \<Rightarrow> py_exn + VenvInfo" where
  "devenv_venv_create h fs name_arg path_arg python_executable with_pip =
     (case (case path_arg of
              None \<Rightarrow> get_default_venv_location h
            | Some p \<Rightarrow> fs_resolve_str fs p) of
        Inl e \<Rightarrow> Inl e
      | Inr parent_dir \<Rightarrow>
     (let target_path = parent_dir @ [name_arg]
      in case fs_exists fs parent_dir of
           Inl e \<Rightarrow> Inl e
         | Inr parent_exists \<Rightarrow>
        (case (if \<not> parent_exists then mkdir_parents h fs parent_dir else Inr fs) of
           Inl e \<Rightarrow> Inl e
         | Inr fs \<Rightarrow>
        (case fs_exists fs target_path of
           Inl e \<Rightarrow> Inl e
         | Inr target_exists \<Rightarrow>
             if target_exists then
               (case is_valid_venv h fs target_path of
                  Inl e \<Rightarrow> Inl e
                | Inr valid \<Rightarrow>
                    if valid then snd (get_venv_info h fs target_path)
                    else Inr \<lparr>name = name_arg, path = str_of_path target_path,
                              python_version = ''unknown'', packages_count = 0,
                              is_valid = False\<rparr>)
             else create_new h fs name_arg target_path python_executable with_pip))))"

subsection \<open>The invariant of a descriptor\<close>

text \<open>A descriptor that is valid does not carry the sentinel version.\<close>

definition venv_invariant :: "VenvInfo \<Rightarrow> bool" where
  "venv_invariant d \<longleftrightarrow> (is_valid d \<longrightarrow> python_version d \<noteq> ''unknown'')"

section \<open>A concrete host for the examples\<close>

subsection \<open>The two library functions\<close>

text \<open>
  \<^verbatim>\<open>json.loads\<close> as \<^verbatim>\<open>json/decoder.py\<close> and \<^verbatim>\<open>json/scanner.py\<close> define it, for
  texts without Unicode escapes in their strings (rejected here). The theorems
  below hold for whatever decoder the host has; this one evaluates the examples.
\<close>

definition json_ws :: "char \<Rightarrow> bool" where
  "json_ws c \<longleftrightarrow> c = CHR '' '' \<or> c = CHR 0x09 \<or> c = CHR 0x0A \<or> c = CHR 0x0D"

definition is_digit :: "char \<Rightarrow> bool" where
  "is_digit c \<longleftrightarrow> 48 \<le> (of_char c :: nat) \<and> (of_char c :: nat) \<le> 57"

definition digits_value :: "string \<Rightarrow> int" where
  "digits_value ds = foldl (\<lambda>acc d. 10 * acc + (int (of_char d) - 48)) 0 ds"

definition unescape :: "char \<Rightarrow> char option" where
  "unescape e =
     (if e = CHR 0x22 \<or> e = CHR 0x5C \<or> e = CHR ''/'' then Some e
      else if e = CHR ''b'' then Some (CHR 0x08)
      else if e = CHR ''f'' then Some (CHR 0x0C)
      else if e = CHR ''n'' then Some (CHR 0x0A)
      else if e = CHR ''r'' then Some (CHR 0x0D)
      else if e = CHR ''t'' then Some (CHR 0x09)
      else None)"

text \<open>The body of a string literal, after its opening quote.\<close>

fun scan_string :: "string \<Rightarrow> (string \<times> string) option" where
  "scan_string [] = None"
| "scan_string (c # cs) =
     (if c = CHR 0x22 then Some ([], cs)
      else if c = CHR 0x5C then
        (case cs of
           [] \<Rightarrow> None
         | e # cs' \<Rightarrow>
             (case unescape e of
                None \<Rightarrow> None
              | Some u \<Rightarrow> map_option (\<lambda>(s, r). (u # s, r)) (scan_string cs')))
      else if (of_char c :: nat) < 32 then None
      else map_option (\<lambda>(s, r). (c # s, r)) (scan_string cs))"

text \<open>
  A number: an optional minus sign, then 0 or a digit string that does not start
  with 0, then an optional fraction (a dot and digits) and an optional exponent.
  It is an \<^verbatim>\<open>int\<close> when there is neither fraction nor exponent, else a
  \<^verbatim>\<open>float\<close>, kept as its text.
\<close>

definition scan_number :: "string \<Rightarrow> (py_value \<times> string) option" where
  "scan_number s =
     (let (sign, r0) = (case s of
                          c # r \<Rightarrow> if c = CHR ''-'' then ([c], r) else ([], s)
                        | [] \<Rightarrow> ([], s))
      in case r0 of
           [] \<Rightarrow> None
         | d # r \<Rightarrow>
             if \<not> is_digit d then None
             else
               (let (ipart, r1) =
                      (if d = CHR ''0'' then ([d], r)
                       else (d # takeWhile is_digit r, dropWhile is_digit r));
                    (frac, r2) =
                      (case r1 of
                         p # f # r' \<Rightarrow>
                           if p = CHR ''.'' \<and> is_digit f
                           then (p # f # takeWhile is_digit r', dropWhile is_digit r')
                           else ([], r1)
                       | _ \<Rightarrow> ([], r1));
                    (ex, r3) =
                      (case r2 of
                         e # r' \<Rightarrow>
                           if e = CHR ''e'' \<or> e = CHR ''E'' then
                             (let (sg, r'') =
                                    (case r' of
                                       c # t \<Rightarrow> if c = CHR ''+'' \<or> c = CHR ''-''
                                                then ([c], t) else ([], r')
                                     | [] \<Rightarrow> ([], r'))
                              in case r'' of
                                   x # t \<Rightarrow>
                                     if is_digit x
                                     then (e # sg @ takeWhile is_digit r'',
                                           dropWhile is_digit r'')
                                     else ([], r2)
                                 | [] \<Rightarrow> ([], r2))
                           else ([], r2)
                       | [] \<Rightarrow> ([], r2))
                in if frac = [] \<and> ex = []
                   then Some (PyInt ((if sign = [] then 1 else -1) * digits_value ipart), r3)
                   else Some (PyFloat (sign @ ipart @ frac @ ex), r3)))"

definition literal :: "string \<Rightarrow> string \<Rightarrow> string option" where
  "literal w s = (if take (length w) s = w then Some (drop (length w) s) else None)"

text \<open>
  The scanner, the array parser and the object parser call each other; the first
  argument bounds the depth of the calls, and the length of the text is enough.
\<close>

fun scan_once :: "nat \<Rightarrow> string \<Rightarrow> (py_value \<times> string) option"
  and scan_array :: "nat \<Rightarrow> string \<Rightarrow> (py_value list \<times> string) option"
  and scan_object :: "nat \<Rightarrow> string \<Rightarrow> ((string \<times> py_value) list \<times> string) option" where
  "scan_once 0 s = None"
| "scan_once (Suc n) [] = None"
| "scan_once (Suc n) (c # cs) =
     (if c = CHR 0x22 then map_option (\<lambda>(v, r). (PyStr v, r)) (scan_string cs)
      else if c = CHR ''{'' then
        (case dropWhile json_ws cs of
           d # r \<Rightarrow> if d = CHR ''}'' then Some (PyDict [], r)
                    else map_option (\<lambda>(kvs, r). (PyDict kvs, r)) (scan_object n (d # r))
         | [] \<Rightarrow> None)
      else if c = CHR ''['' then
        (case dropWhile json_ws cs of
           d # r \<Rightarrow> if d = CHR '']'' then Some (PyList [], r)
                    else map_option (\<lambda>(vs, r). (PyList vs, r)) (scan_array n (d # r))
         | [] \<Rightarrow> None)
      else case literal ''null'' (c # cs) of Some r \<Rightarrow> Some (PyNone, r) | None \<Rightarrow>
      (case literal ''true'' (c # cs) of Some r \<Rightarrow> Some (PyBool True, r) | None \<Rightarrow>
      (case literal ''false'' (c # cs) of Some r \<Rightarrow> Some (PyBool False, r) | None \<Rightarrow>
      (case scan_number (c # cs) of Some vr \<Rightarrow> Some vr | None \<Rightarrow>
      (case literal ''NaN'' (c # cs) of Some r \<Rightarrow> Some (PyFloat ''NaN'', r) | None \<Rightarrow>
      (case literal ''Infinity'' (c # cs) of Some r \<Rightarrow> Some (PyFloat ''Infinity'', r) | None \<Rightarrow>
      (case literal ''-Infinity'' (c # cs) of Some r \<Rightarrow> Some (PyFloat ''-Infinity'', r) | None \<Rightarrow>
       None)))))))"
| "scan_array 0 s = None"
| "scan_array (Suc n) s =
     (case scan_once n s of
        None \<Rightarrow> None
      | Some (v, r) \<Rightarrow>
          (case dropWhile json_ws r of
             d # r' \<Rightarrow>
               if d = CHR '']'' then Some ([v], r')
               else if d = CHR '','' then
                 map_option (\<lambda>(vs, t). (v # vs, t)) (scan_array n (dropWhile json_ws r'))
               else None
           | [] \<Rightarrow> None))"
| "scan_object 0 s = None"
| "scan_object (Suc n) s =
     (case s of
        q # r \<Rightarrow>
          if q \<noteq> CHR 0x22 then None
          else
            (case scan_string r of
               None \<Rightarrow> None
             | Some (k, r1) \<Rightarrow>
                 (case dropWhile json_ws r1 of
                    c # r2 \<Rightarrow>
                      if c \<noteq> CHR '':'' then None
                      else
                        (case scan_once n (dropWhile json_ws r2) of
                           None \<Rightarrow> None
                         | Some (v, r3) \<Rightarrow>
                             (case dropWhile json_ws r3 of
                                d # r4 \<Rightarrow>
                                  if d = CHR ''}'' then Some ([(k, v)], r4)
                                  else if d = CHR '','' then
                                    map_option (\<lambda>(kvs, t). ((k, v) # kvs, t))
                                      (scan_object n (dropWhile json_ws r4))
                                  else None
                              | [] \<Rightarrow> None))
                  | [] \<Rightarrow> None))
      | [] \<Rightarrow> None)"

definition decode_json :: "string \<Rightarrow> py_exn + py_value" where
  "decode_json s =
     (case scan_once (Suc (length s)) (dropWhile json_ws s) of
        None \<Rightarrow> Inl JSONDecodeError
      | Some (v, r) \<Rightarrow> if dropWhile json_ws r = [] then Inr v else Inl JSONDecodeError)"

text \<open>
  \<^verbatim>\<open>fnmatch.fnmatch(name, pat)\<close> on a POSIX host, for patterns made of ordinary
  characters, \<^verbatim>\<open>?\<close> and \<^verbatim>\<open>*\<close> (no bracket expressions).
\<close>

fun glob_match :: "string \<Rightarrow> string \<Rightarrow> bool" where
  "glob_match s [] = (s = [])"
| "glob_match [] (p # ps) = (p = CHR ''*'' \<and> glob_match [] ps)"
| "glob_match (c # cs) (p # ps) =
     (if p = CHR ''*'' then glob_match (c # cs) ps \<or> glob_match cs (p # ps)
      else (p = CHR ''?'' \<or> p = c) \<and> glob_match cs ps)"

subsection \<open>A file system and its commands\<close>

definition demo_dirs :: "path list" where
  "demo_dirs =
     [[], [''envs''],
      [''envs'', ''alpha''], [''envs'', ''alpha'', ''bin''],
      [''envs'', ''beta''],
      [''envs'', ''gamma''], [''envs'', ''gamma'', ''bin''],
      [''envs'', ''delta''], [''envs'', ''delta'', ''bin''],
      [''work''],
      [''work'', ''venv''], [''work'', ''venv'', ''bin''],
      [''work'', ''.venv''], [''work'', ''.venv'', ''bin''],
      [''mixed''],
      [''mixed'', ''venv''], [''mixed'', ''venv'', ''bin''],
      [''mixed'', ''.venv''], [''mixed'', ''.venv'', ''bin''],
      [''home''], [''home'', ''.venvs''],
      [''home'', ''.venvs'', ''proj-a''], [''home'', ''.venvs'', ''proj-a'', ''bin''],
      [''home'', ''.venvs'', ''other''], [''home'', ''.venvs'', ''other'', ''bin''],
      [''home'', ''.venvs'', ''proj-b''], [''home'', ''.venvs'', ''proj-b'', ''bin'']]"

definition demo_files :: "path list" where
  "demo_files =
     [[''envs'', ''alpha'', ''bin'', ''python''],
      [''envs'', ''gamma'', ''bin'', ''python''],
      [''envs'', ''delta'', ''bin'', ''python''],
      [''work'', ''venv'', ''bin'', ''python''],
      [''work'', ''.venv'', ''bin'', ''python''],
      [''mixed'', ''venv'', ''bin'', ''python''],
      [''mixed'', ''.venv'', ''bin'', ''python''],
      [''home'', ''.venvs'', ''notes.txt''],
      [''home'', ''.venvs'', ''proj-a'', ''bin'', ''python''],
      [''home'', ''.venvs'', ''other'', ''bin'', ''python''],
      [''home'', ''.venvs'', ''proj-b'', ''bin'', ''python'']]"

text \<open>
  A name of more than 255 characters is longer than the file system allows:
  \<^verbatim>\<open>stat\<close> fails on a path with such a segment, and the failure is not one that
  \<^verbatim>\<open>Path.exists\<close> and \<^verbatim>\<open>Path.is_dir\<close> turn into \<^verbatim>\<open>False\<close>.
\<close>

definition name_too_long :: "path \<Rightarrow> bool" where
  "name_too_long p \<longleftrightarrow> list_ex (\<lambda>segment. 255 < length segment) p"

text \<open>The segments of an absolute path written with slashes.\<close>

fun split_path :: "string \<Rightarrow> string \<Rightarrow> path" where
  "split_path [] segment = (if segment = [] then [] else [segment])"
| "split_path (c # cs) segment =
     (if c = CHR ''/'' then (if segment = [] then [] else [segment]) @ split_path cs []
      else split_path cs (segment @ [c]))"

definition demo_fs :: filesystem where
  "demo_fs =
     \<lparr>fs_exists =
        (\<lambda>p. if name_too_long p then Inl OSError
             else Inr (p \<in> set demo_dirs \<or> p \<in> set demo_files)),
      fs_is_dir =
        (\<lambda>p. if name_too_long p then Inl OSError else Inr (p \<in> set demo_dirs)),
      fs_iterdir =
        (\<lambda>p. if p = [''home'', ''.venvs'']
               then Inr [''proj-a'', ''notes.txt'', ''other'', ''proj-b'']
             else if p \<in> set demo_dirs then Inr []
             else if p \<in> set demo_files then Inl NotADirectoryError
             else Inl (FileNotFoundError (str_of_path p))),
      fs_resolve = (\<lambda>p. Inr p),
      fs_resolve_str = (\<lambda>s. Inr (split_path s []))\<rparr>"

text \<open>
  What each command does: \<^verbatim>\<open>alpha\<close> is healthy, the interpreter of \<^verbatim>\<open>delta\<close> hangs,
  the package manager of \<^verbatim>\<open>gamma\<close> prints one JSON object in place of an array, the
  one of \<^verbatim>\<open>/work/venv\<close> prints no JSON, the one of \<^verbatim>\<open>/mixed/.venv\<close> prints the JSON
  number 42. No command changes the file system.
\<close>

definition demo_spawn ::
  "filesystem \<Rightarrow> string list \<Rightarrow> nat \<Rightarrow> proc_outcome \<times> filesystem" where
  \<open>demo_spawn fs command timeout =
     (if command = [''/envs/alpha/bin/python'', ''--version'']
        then Exited (Some 0) (''Python 3.11.5'' @ [CHR 0x0A]) []
      else if command = [''/envs/alpha/bin/pip'', ''list'', ''--format=json'']
        then Exited (Some 0)
               (''[{"name":"pip","version":"23.0"},{"name":"six","version":"1.16"}]''
                  @ [CHR 0x0A]) []
      else if command = [''/envs/gamma/bin/python'', ''--version'']
        then Exited (Some 0) (''Python 3.11.5'' @ [CHR 0x0A]) []
      else if command = [''/envs/gamma/bin/pip'', ''list'', ''--format=json'']
        then Exited (Some 0) (''{"name":"pip","version":"23.0"}'' @ [CHR 0x0A]) []
      else if command = [''/envs/delta/bin/python'', ''--version'']
        then Raises TimeoutError
      else if command = [''/envs/delta/bin/pip'', ''list'', ''--format=json'']
        then Exited (Some 0) (''[{"name":"pip","version":"23.0"}]'' @ [CHR 0x0A]) []
      else if command = [''/work/venv/bin/python'', ''--version'']
        then Exited (Some 0) (''Python 3.12.1'' @ [CHR 0x0A]) []
      else if command = [''/work/venv/bin/pip'', ''list'', ''--format=json'']
        then Exited (Some 0) ''not valid json'' []
      else if command = [''/work/.venv/bin/python'', ''--version'']
        then Exited (Some 0) (''Python 3.9.18'' @ [CHR 0x0A]) []
      else if command = [''/work/.venv/bin/pip'', ''list'', ''--format=json'']
        then Exited (Some 0) ''[]'' []
      else if command = [''/mixed/venv/bin/python'', ''--version'']
        then Exited (Some 0) (''Python 3.11.5'' @ [CHR 0x0A]) []
      else if command = [''/mixed/venv/bin/pip'', ''list'', ''--format=json'']
        then Exited (Some 0) ''[]'' []
      else if command = [''/mixed/.venv/bin/python'', ''--version'']
        then Exited (Some 0) (''Python 3.11.5'' @ [CHR 0x0A]) []
      else if command = [''/mixed/.venv/bin/pip'', ''list'', ''--format=json'']
        then Exited (Some 0) (''42'' @ [CHR 0x0A]) []
      else Raises (FileNotFoundError (case command of [] \<Rightarrow> [] | c # cs \<Rightarrow> c)),
      fs)\<close>

definition demo_host :: host where
  "demo_host =
     \<lparr>get_platform = Linux, get_home_directory = Inr [''home''], cwd = Inr [''work''],
      spawn = demo_spawn, mkdir_parents = (\<lambda>fs p. Inl PermissionError),
      json_loads = decode_json, fnmatch = glob_match\<rparr>"


section \<open>Properties\<close>

subsection \<open>Stripping and the output of a command\<close>

text \<open>Stripping twice changes nothing more.\<close>

lemma strip_fixed: "strip (strip s) = strip s"
proof -
  define u where "u = dropWhile py_isspace s"
  define w where "w = dropWhile py_isspace (rev u)"
  have s: "strip s = rev w"
    by (simp add: strip_def u_def w_def)
  have front: "dropWhile py_isspace (rev w) = rev w"
  proof (cases "w = []")
    case True
    then show ?thesis by simp
  next
    case False
    then have "rev u \<noteq> []"
      by (auto simp: w_def)
    then have u: "u \<noteq> []" by simp
    then have "\<not> py_isspace (hd u)"
      unfolding u_def by (rule hd_dropWhile)
    moreover have "last w = last (rev u)"
    proof -
      from False obtain x where "x \<in> set (rev u)" and "\<not> py_isspace x"
        unfolding w_def dropWhile_eq_Nil_conv by blast
      then show ?thesis
        unfolding w_def by (rule dropWhile_last)
    qed
    moreover have "last (rev u) = hd u"
      using u by (simp add: last_rev)
    moreover have "hd (rev w) = last w"
      using False by (simp add: hd_rev)
    ultimately have "\<not> py_isspace (hd (rev w))" by simp
    then show ?thesis
      using False by (cases "rev w") auto
  qed
  have rear: "dropWhile py_isspace w = w"
    by (simp add: w_def)
  show ?thesis
    unfolding s by (simp add: strip_def front rear)
qed

text \<open>The standard output of a result of \<^verbatim>\<open>run_command\<close> is already stripped.\<close>

lemma strip_Nil: "strip [] = []"
  by (simp add: strip_def)

lemma run_command_stdout_stripped:
  "run_command h fs command timeout = Inr r \<Longrightarrow> strip (stdout r) = stdout r"
  by (auto simp: run_command_def strip_fixed strip_Nil
           split: proc_outcome.splits py_exn.splits)

lemma parse_python_version_run:
  assumes "run_command h fs command timeout = Inr r"
  shows "parse_python_version (Inr r) =
           (if success r \<and> take 7 (stdout r) = ''Python '' then drop 7 (stdout r)
            else ''unknown'')"
  using run_command_stdout_stripped [OF assms]
  by (simp add: parse_python_version_def Let_def)

subsection \<open>The Prober\<close>

text \<open>
  The Validator answers when the path resolves and the test of the interpreter
  path answers; the package-manager path then resolves as well.
\<close>

lemma is_valid_venv_answer:
  assumes "is_valid_venv h fs venv_path = Inr answer"
  shows "\<exists>python_path pip_path.
           get_venv_python_path h fs venv_path = Inr python_path
           \<and> get_venv_pip_path h fs venv_path = Inr pip_path
           \<and> fs_exists fs python_path = Inr answer"
  using assms
  by (auto simp: is_valid_venv_def get_venv_python_path_def get_venv_pip_path_def
           split: sum.splits)

text \<open>
  C2. An identifier the Validator rejects (its interpreter path does not exist) is
  answered at once: the version is the sentinel \<^verbatim>\<open>"unknown"\<close>, the package count is
  0, the descriptor is not valid, and no command is started.
\<close>

theorem C2_rejected_short_circuit:
  assumes "is_valid_venv h fs venv_path = Inr False"
  shows "get_venv_info h fs venv_path =
           ([], Inr \<lparr>name = path_name venv_path, path = str_of_path venv_path,
                     python_version = ''unknown'', packages_count = 0,
                     is_valid = False\<rparr>)"
proof -
  from is_valid_venv_answer [OF assms] obtain python_path pip_path where
    "get_venv_python_path h fs venv_path = Inr python_path"
    "get_venv_pip_path h fs venv_path = Inr pip_path"
    "fs_exists fs python_path = Inr False"
    by blast
  then show ?thesis
    by (simp add: get_venv_info_def Let_def)
qed

text \<open>The environment \<^verbatim>\<open>/envs/beta\<close> has no interpreter.\<close>

theorem C2_witness:
  "is_valid_venv demo_host demo_fs [''envs'', ''beta''] = Inr False
   \<and> get_venv_info demo_host demo_fs [''envs'', ''beta''] =
       ([], Inr \<lparr>name = ''beta'', path = ''/envs/beta'', python_version = ''unknown'',
                 packages_count = 0, is_valid = False\<rparr>)"
proof -
  have rejected: "is_valid_venv demo_host demo_fs [''envs'', ''beta''] = Inr False"
    by code_simp
  have "path_name [''envs'', ''beta''] = ''beta''"
    and "str_of_path [''envs'', ''beta''] = ''/envs/beta''"
    by (simp_all add: path_name_def str_of_path_def)
  with rejected C2_rejected_short_circuit [OF rejected] show ?thesis
    by simp
qed

text \<open>What the Prober returns for an identifier the Validator accepts.\<close>

lemma get_venv_info_probed:
  assumes "is_valid_venv h fs venv_path = Inr True"
    and "get_venv_python_path h fs venv_path = Inr python_path"
    and "get_venv_pip_path h fs venv_path = Inr pip_path"
  shows "get_venv_info h fs venv_path =
           ([(version_cmd python_path, 10), (packages_cmd pip_path, 30)],
            case parse_packages_count h (run_command h fs (packages_cmd pip_path) 30) of
              Inl e \<Rightarrow> Inl e
            | Inr count \<Rightarrow>
                Inr \<lparr>name = path_name venv_path, path = str_of_path venv_path,
                     python_version =
                       parse_python_version (run_command h fs (version_cmd python_path) 10),
                     packages_count = count,
                     is_valid =
                       ((case run_command h fs (version_cmd python_path) 10 of
                           Inl e \<Rightarrow> False
                         | Inr r \<Rightarrow> success r)
                        \<and> parse_python_version
                              (run_command h fs (version_cmd python_path) 10)
                            \<noteq> ''unknown'')\<rparr>)"
  using assms by (simp add: get_venv_info_def is_valid_venv_def Let_def)

lemma parse_python_version_failed:
  "\<forall>r. version_result = Inr r \<longrightarrow> \<not> success r \<Longrightarrow>
     parse_python_version version_result = ''unknown''"
  by (cases version_result) (simp_all add: parse_python_version_def)

lemma parse_packages_count_list:
  "success r \<Longrightarrow> json_loads h (stdout r) = Inr (PyList entries) \<Longrightarrow>
     parse_packages_count h (Inr r) = Inr (length entries)"
  by (simp add: parse_packages_count_def)

lemma parse_packages_count_degraded:
  "\<forall>r. packages_result = Inr r \<longrightarrow>
         \<not> success r \<or> json_loads h (stdout r) = Inl JSONDecodeError \<Longrightarrow>
     parse_packages_count h packages_result = Inr 0"
  by (cases packages_result) (auto simp: parse_packages_count_def)

text \<open>
  C3. For a validated identifier whose version probe succeeds with the output
  \<^verbatim>\<open>"Python "\<close> followed by a version string \<open>v\<close> (a string other than the sentinel),
  and whose manifest probe succeeds with a JSON array of \<open>N\<close> entries, the descriptor
  has the final path segment as its name, \<open>v\<close> as its version, \<open>N\<close> as its package
  count, and is valid. Version output that does not start with \<^verbatim>\<open>"Python "\<close> gives
  the sentinel \<^verbatim>\<open>"unknown"\<close>. Here \<open>python_path\<close> and \<open>pip_path\<close> name the two
  executables of the identifier.
\<close>

theorem C3_happy_path:
  assumes "is_valid_venv h fs venv_path = Inr True"
    and "get_venv_python_path h fs venv_path = Inr python_path"
    and "get_venv_pip_path h fs venv_path = Inr pip_path"
    and "run_command h fs (version_cmd python_path) 10 = Inr version_result"
    and "success version_result"
    and "run_command h fs (packages_cmd pip_path) 30 = Inr packages_result"
    and "success packages_result"
    and "json_loads h (stdout packages_result) = Inr (PyList entries)"
  shows "(stdout version_result = ''Python '' @ v \<and> v \<noteq> ''unknown'' \<longrightarrow>
            snd (get_venv_info h fs venv_path) =
              Inr \<lparr>name = path_name venv_path, path = str_of_path venv_path,
                   python_version = v, packages_count = length entries,
                   is_valid = True\<rparr>)
       \<and> (take 7 (stdout version_result) \<noteq> ''Python '' \<longrightarrow>
            snd (get_venv_info h fs venv_path) =
              Inr \<lparr>name = path_name venv_path, path = str_of_path venv_path,
                   python_version = ''unknown'', packages_count = length entries,
                   is_valid = False\<rparr>)"
proof -
  have count: "parse_packages_count h (run_command h fs (packages_cmd pip_path) 30)
                 = Inr (length entries)"
    using assms(6-8) by (simp add: parse_packages_count_list)
  have version: "parse_python_version (Inr version_result)
                   = (if take 7 (stdout version_result) = ''Python ''
                      then drop 7 (stdout version_result) else ''unknown'')"
    using parse_python_version_run [OF assms(4)] assms(5) by simp
  show ?thesis
    by (simp add: get_venv_info_probed [OF assms(1-3)] count assms(4,5) version)
qed

text \<open>
  The scenario of the specification: \<^verbatim>\<open>/envs/alpha\<close> reports \<^verbatim>\<open>Python 3.11.5\<close> and
  lists two packages.
\<close>

theorem C3_witness:
  \<open>snd (get_venv_info demo_host demo_fs [''envs'', ''alpha'']) =
     Inr \<lparr>name = ''alpha'', path = ''/envs/alpha'', python_version = ''3.11.5'',
          packages_count = 2, is_valid = True\<rparr>\<close>
proof -
  let ?python = "[''envs'', ''alpha'', ''bin'', ''python'']"
  let ?pip = "[''envs'', ''alpha'', ''bin'', ''pip'']"
  let ?vr = "\<lparr>returncode = 0, stdout = ''Python 3.11.5'', stderr = []\<rparr>"
  let ?pr = \<open>\<lparr>returncode = 0,
               stdout = ''[{"name":"pip","version":"23.0"},{"name":"six","version":"1.16"}]'',
               stderr = []\<rparr>\<close>
  let ?entries = "[PyDict [(''name'', PyStr ''pip''), (''version'', PyStr ''23.0'')],
                   PyDict [(''name'', PyStr ''six''), (''version'', PyStr ''1.16'')]]"
  have valid: "is_valid_venv demo_host demo_fs [''envs'', ''alpha''] = Inr True"
    by code_simp
  have python: "get_venv_python_path demo_host demo_fs [''envs'', ''alpha''] = Inr ?python"
    by code_simp
  have pip: "get_venv_pip_path demo_host demo_fs [''envs'', ''alpha''] = Inr ?pip"
    by code_simp
  have vr: "run_command demo_host demo_fs (version_cmd ?python) 10 = Inr ?vr"
    by code_simp
  have vs: "success ?vr"
    by (simp add: success_def)
  have pr: "run_command demo_host demo_fs (packages_cmd ?pip) 30 = Inr ?pr"
    by code_simp
  have ps: "success ?pr"
    by (simp add: success_def)
  have js: "json_loads demo_host (stdout ?pr) = Inr (PyList ?entries)"
    by code_simp
  have names: "path_name [''envs'', ''alpha''] = ''alpha''"
    "str_of_path [''envs'', ''alpha''] = ''/envs/alpha''"
    by (simp_all add: path_name_def str_of_path_def)
  from C3_happy_path [OF valid python pip vr vs pr ps js, of "''3.11.5''"] names
  show ?thesis by simp
qed

text \<open>
  C9. For a validated identifier whose version probe times out, or fails in another
  way, while the manifest probe succeeds with a JSON array of \<open>N\<close> entries: both
  commands are started, and the descriptor has the sentinel version, is not valid,
  and counts \<open>N\<close> packages.
\<close>

theorem C9_version_probe_fails:
  assumes "is_valid_venv h fs venv_path = Inr True"
    and "get_venv_python_path h fs venv_path = Inr python_path"
    and "get_venv_pip_path h fs venv_path = Inr pip_path"
    and "fst (spawn h fs (version_cmd python_path) 10) = Raises TimeoutError
         \<or> (\<forall>r. run_command h fs (version_cmd python_path) 10 = Inr r
                 \<longrightarrow> \<not> success r)"
    and "run_command h fs (packages_cmd pip_path) 30 = Inr packages_result"
    and "success packages_result"
    and "json_loads h (stdout packages_result) = Inr (PyList entries)"
  shows "get_venv_info h fs venv_path =
           ([(version_cmd python_path, 10), (packages_cmd pip_path, 30)],
            Inr \<lparr>name = path_name venv_path, path = str_of_path venv_path,
                 python_version = ''unknown'', packages_count = length entries,
                 is_valid = False\<rparr>)"
proof -
  have failed: "\<forall>r. run_command h fs (version_cmd python_path) 10 = Inr r
                   \<longrightarrow> \<not> success r"
    using assms(4) by (auto simp: run_command_def)
  then have version:
    "parse_python_version (run_command h fs (version_cmd python_path) 10) = ''unknown''"
    by (rule parse_python_version_failed)
  have count: "parse_packages_count h (run_command h fs (packages_cmd pip_path) 30)
                 = Inr (length entries)"
    using assms(5-7) by (simp add: parse_packages_count_list)
  show ?thesis
    by (simp add: get_venv_info_probed [OF assms(1-3)] version count)
qed

text \<open>The interpreter of \<^verbatim>\<open>/envs/delta\<close> hangs; its package manager lists one package.\<close>

theorem C9_witness:
  \<open>get_venv_info demo_host demo_fs [''envs'', ''delta''] =
     ([([''/envs/delta/bin/python'', ''--version''], 10),
       ([''/envs/delta/bin/pip'', ''list'', ''--format=json''], 30)],
      Inr \<lparr>name = ''delta'', path = ''/envs/delta'', python_version = ''unknown'',
           packages_count = 1, is_valid = False\<rparr>)\<close>
proof -
  let ?python = "[''envs'', ''delta'', ''bin'', ''python'']"
  let ?pip = "[''envs'', ''delta'', ''bin'', ''pip'']"
  let ?pr = \<open>\<lparr>returncode = 0, stdout = ''[{"name":"pip","version":"23.0"}]'',
               stderr = []\<rparr>\<close>
  let ?entries = "[PyDict [(''name'', PyStr ''pip''), (''version'', PyStr ''23.0'')]]"
  have valid: "is_valid_venv demo_host demo_fs [''envs'', ''delta''] = Inr True"
    by code_simp
  have python: "get_venv_python_path demo_host demo_fs [''envs'', ''delta''] = Inr ?python"
    by code_simp
  have pip: "get_venv_pip_path demo_host demo_fs [''envs'', ''delta''] = Inr ?pip"
    by code_simp
  have timeout: "fst (spawn demo_host demo_fs (version_cmd ?python) 10)
                   = Raises TimeoutError"
    by code_simp
  have pr: "run_command demo_host demo_fs (packages_cmd ?pip) 30 = Inr ?pr"
    by code_simp
  have ps: "success ?pr"
    by (simp add: success_def)
  have js: "json_loads demo_host (stdout ?pr) = Inr (PyList ?entries)"
    by code_simp
  have cmds: "version_cmd ?python = [''/envs/delta/bin/python'', ''--version'']"
    "packages_cmd ?pip = [''/envs/delta/bin/pip'', ''list'', ''--format=json'']"
    by code_simp+
  have names: "path_name [''envs'', ''delta''] = ''delta''"
    "str_of_path [''envs'', ''delta''] = ''/envs/delta''"
    by (simp_all add: path_name_def str_of_path_def)
  from C9_version_probe_fails [OF valid python pip disjI1 [OF timeout] pr ps js] cmds names
  show ?thesis by simp
qed

subsection \<open>Where the Prober raises\<close>

text \<open>
  For an identifier the Validator accepts, a descriptor that is returned is valid
  exactly when the version probe completed with exit code 0 and the parsed version
  is not the sentinel; and an exception leaves \<^verbatim>\<open>_get_venv_info\<close> exactly when the
  manifest probe exits with code 0 and either \<^verbatim>\<open>json.loads\<close> raises something other
  than \<^verbatim>\<open>JSONDecodeError\<close> or it returns an object that has no length.
\<close>

lemma is_valid_characterised:
  assumes "is_valid_venv h fs venv_path = Inr True"
    and "get_venv_python_path h fs venv_path = Inr python_path"
    and "snd (get_venv_info h fs venv_path) = Inr d"
  shows "is_valid d \<longleftrightarrow>
           (\<exists>r. run_command h fs (version_cmd python_path) 10 = Inr r \<and> success r)
           \<and> python_version d \<noteq> ''unknown''"
proof -
  from is_valid_venv_answer [OF assms(1)] assms(2) obtain pip_path where
    "get_venv_pip_path h fs venv_path = Inr pip_path"
    by auto
  with assms show ?thesis
    by (auto simp: get_venv_info_probed split: sum.splits)
qed

lemma parse_packages_count_raises:
  "parse_packages_count h packages_result = Inl e \<longleftrightarrow>
     (\<exists>r. packages_result = Inr r \<and> success r
          \<and> (json_loads h (stdout r) = Inl e \<and> e \<noteq> JSONDecodeError
              \<or> (\<exists>v. json_loads h (stdout r) = Inr v \<and> py_len v = Inl e)))"
  by (cases packages_result)
     (auto simp: parse_packages_count_def split: sum.splits py_exn.splits)

lemma get_venv_info_raises:
  assumes "is_valid_venv h fs venv_path = Inr True"
    and "get_venv_pip_path h fs venv_path = Inr pip_path"
  shows "snd (get_venv_info h fs venv_path) = Inl e \<longleftrightarrow>
     (\<exists>r. run_command h fs (packages_cmd pip_path) 30 = Inr r \<and> success r
          \<and> (json_loads h (stdout r) = Inl e \<and> e \<noteq> JSONDecodeError
              \<or> (\<exists>v. json_loads h (stdout r) = Inr v \<and> py_len v = Inl e)))"
proof -
  from is_valid_venv_answer [OF assms(1)] obtain python_path where
    python: "get_venv_python_path h fs venv_path = Inr python_path"
    by blast
  have "snd (get_venv_info h fs venv_path) = Inl e \<longleftrightarrow>
          parse_packages_count h (run_command h fs (packages_cmd pip_path) 30) = Inl e"
    by (simp add: get_venv_info_probed [OF assms(1) python assms(2)] split: sum.splits)
  then show ?thesis
    by (simp add: parse_packages_count_raises)
qed

text \<open>
  C1. The Prober is to return a descriptor whatever the two probes do, with package
  count 0 whenever the manifest output is not a JSON array. It does not when the
  manifest output is a JSON number: the package manager of \<^verbatim>\<open>/mixed/.venv\<close> prints
  \<^verbatim>\<open>42\<close>, \<^verbatim>\<open>json.loads\<close> returns the integer 42, and \<^verbatim>\<open>len\<close> raises \<^verbatim>\<open>TypeError\<close>,
  which no handler catches.
\<close>

theorem C1_failing_input:
  "get_venv_info demo_host demo_fs [''mixed'', ''.venv''] =
     ([([''/mixed/.venv/bin/python'', ''--version''], 10),
       ([''/mixed/.venv/bin/pip'', ''list'', ''--format=json''], 30)],
      Inl TypeError)"
  by code_simp

text \<open>
  C4. With a working interpreter, manifest output that is not a JSON array of
  entries is to leave the descriptor valid with package count 0. It does for
  output that is no JSON at all; it does not for JSON of another shape. The
  package manager of \<^verbatim>\<open>/envs/gamma\<close> prints one object with two keys in place of an
  array: the descriptor is valid and counts 2 packages, the length of the object.
\<close>

theorem C4_failing_input:
  "get_venv_info demo_host demo_fs [''envs'', ''gamma''] =
     ([([''/envs/gamma/bin/python'', ''--version''], 10),
       ([''/envs/gamma/bin/pip'', ''list'', ''--format=json''], 30)],
      Inr \<lparr>name = ''gamma'', path = ''/envs/gamma'', python_version = ''3.11.5'',
           packages_count = 2, is_valid = True\<rparr>)"
  by code_simp

text \<open>
  When the manifest probe fails, or its output is not decodable JSON, a descriptor
  is returned all the same, with package count 0 and its validity decided by the
  version probe alone.
\<close>

lemma manifest_failure_degrades:
  assumes "is_valid_venv h fs venv_path = Inr True"
    and "get_venv_python_path h fs venv_path = Inr python_path"
    and "get_venv_pip_path h fs venv_path = Inr pip_path"
    and "\<forall>r. run_command h fs (packages_cmd pip_path) 30 = Inr r \<longrightarrow>
               \<not> success r \<or> json_loads h (stdout r) = Inl JSONDecodeError"
  shows "\<exists>d. snd (get_venv_info h fs venv_path) = Inr d \<and> packages_count d = 0
             \<and> (is_valid d \<longleftrightarrow>
                  (\<exists>r. run_command h fs (version_cmd python_path) 10 = Inr r
                       \<and> success r \<and> take 7 (stdout r) = ''Python ''
                       \<and> drop 7 (stdout r) \<noteq> ''unknown''))"
proof -
  let ?vr = "run_command h fs (version_cmd python_path) 10"
  from assms(4) have count:
    "parse_packages_count h (run_command h fs (packages_cmd pip_path) 30) = Inr 0"
    by (rule parse_packages_count_degraded)
  have "((case ?vr of Inl e \<Rightarrow> False | Inr r \<Rightarrow> success r)
          \<and> parse_python_version ?vr \<noteq> ''unknown'')
        \<longleftrightarrow> (\<exists>r. ?vr = Inr r \<and> success r \<and> take 7 (stdout r) = ''Python ''
                  \<and> drop 7 (stdout r) \<noteq> ''unknown'')"
  proof (cases ?vr)
    case (Inl e)
    then show ?thesis by simp
  next
    case (Inr r)
    then show ?thesis
      using parse_python_version_run [OF Inr] by auto
  qed
  then show ?thesis
    by (simp add: get_venv_info_probed [OF assms(1-3)] count)
qed

subsection \<open>The Fan-out Coordinator\<close>

text \<open>
  After a run of \<^verbatim>\<open>gather\<close> that raised nothing, the slot of every position that
  finished holds the value of that position, and the other slots are untouched.
\<close>

lemma gather_run_slots:
  "gather_run order outcomes slots = Inr slots' \<Longrightarrow> length slots = length outcomes \<Longrightarrow>
     length slots' = length outcomes
     \<and> (\<forall>i<length outcomes.
           slots' ! i = (if i \<in> set order
                         then (case outcomes ! i of Inl e \<Rightarrow> None | Inr v \<Rightarrow> Some v)
                         else slots ! i))"
proof (induction order arbitrary: slots)
  case Nil
  then show ?case by simp
next
  case (Cons i order)
  show ?case
  proof (cases "i < length outcomes")
    case False
    with Cons.prems have "gather_run order outcomes slots = Inr slots'"
      by simp
    from Cons.IH [OF this Cons.prems(2)] False show ?thesis
      by auto
  next
    case True
    with Cons.prems obtain v where v: "outcomes ! i = Inr v"
      and run: "gather_run order outcomes (slots[i := Some v]) = Inr slots'"
      by (auto split: sum.splits)
    have "length (slots[i := Some v]) = length outcomes"
      using Cons.prems(2) by simp
    from Cons.IH [OF run this] v True Cons.prems(2) show ?thesis
      by (auto simp: nth_list_update)
  qed
qed

lemma gather_run_raises:
  "gather_run order outcomes slots = Inl e \<Longrightarrow> Inl e \<in> set outcomes"
proof (induction order arbitrary: slots)
  case Nil
  then show ?case by simp
next
  case (Cons i order)
  then show ?case
    by (cases "i < length outcomes") (auto split: sum.splits dest: nth_mem)
qed

lemma gather_run_values:
  "gather_run order (map Inr vs) slots \<noteq> Inl e"
  by (induction order arbitrary: slots) auto

text \<open>
  What \<^verbatim>\<open>gather\<close> returns is the list of the values in argument order, whatever the
  order in which they arrived; it returns once every position has finished, and
  what it raises was raised by one of its arguments.
\<close>

lemma gather_returns:
  assumes "gather order outcomes = Some (Inr vs)"
  shows "outcomes = map Inr vs"
proof -
  from assms obtain slots' where
    run: "gather_run order outcomes (replicate (length outcomes) None) = Inr slots'"
    and filled: "list_all (\<lambda>s. s \<noteq> None) slots'"
    and vs: "vs = map the slots'"
    by (auto simp: gather_def split: sum.splits if_splits)
  from gather_run_slots [OF run] have len: "length slots' = length outcomes"
    and slot: "\<And>i. i < length outcomes \<Longrightarrow>
                 slots' ! i = (if i \<in> set order
                               then (case outcomes ! i of Inl e \<Rightarrow> None | Inr v \<Rightarrow> Some v)
                               else None)"
    by simp_all
  show ?thesis
  proof (rule nth_equalityI)
    show "length outcomes = length (map Inr vs)"
      by (simp add: vs len)
  next
    fix i
    assume i: "i < length outcomes"
    with filled len have "slots' ! i \<noteq> None"
      by (simp add: list_all_length)
    with slot [OF i] obtain v where "outcomes ! i = Inr v" "slots' ! i = Some v"
      by (auto split: if_splits sum.splits)
    with i len show "outcomes ! i = map Inr vs ! i"
      by (simp add: vs)
  qed
qed

lemma gather_all_values:
  assumes "{..<length vs} \<subseteq> set order"
  shows "gather order (map Inr vs) = Some (Inr vs)"
proof -
  obtain slots' where
    run: "gather_run order (map Inr vs) (replicate (length (map Inr vs)) None) = Inr slots'"
    using gather_run_values [of order vs] by (meson sum.exhaust_sel sumE)
  from gather_run_slots [OF run] assms have len: "length slots' = length vs"
    and slot: "\<And>i. i < length vs \<Longrightarrow> slots' ! i = Some (vs ! i)"
    by auto
  then have "list_all (\<lambda>s. s \<noteq> None) slots'"
    by (simp add: list_all_length)
  moreover have "map the slots' = vs"
    by (rule nth_equalityI) (simp_all add: len slot)
  ultimately show ?thesis
    using run by (simp add: gather_def)
qed

lemma gather_raises:
  "gather order outcomes = Some (Inl e) \<Longrightarrow> Inl e \<in> set outcomes"
  by (auto simp: gather_def split: sum.splits if_splits dest: gather_run_raises)

subsection \<open>Where descriptors come from\<close>

lemma get_venv_info_invariant:
  "snd (get_venv_info h fs venv_path) = Inr d \<Longrightarrow> venv_invariant d"
  by (auto simp: get_venv_info_def venv_invariant_def Let_def split: if_splits sum.splits)

lemma devenv_venv_list_members:
  assumes "devenv_venv_list h fs working_dir include_global name_pattern order = Some (Inr ds)"
    and "d \<in> set ds"
  shows "\<exists>p. snd (get_venv_info h fs p) = Inr d"
proof -
  from assms obtain venv_paths where
    "gather order (map (\<lambda>p. snd (get_venv_info h fs p)) venv_paths) = Some (Inr ds)"
    by (auto simp: devenv_venv_list_def list_in_def split: sum.splits if_splits)
  then have "map (\<lambda>p. snd (get_venv_info h fs p)) venv_paths = map Inr ds"
    by (rule gather_returns)
  then have "Inr d \<in> set (map (\<lambda>p. snd (get_venv_info h fs p)) venv_paths)"
    using assms(2) by simp
  then show ?thesis by auto
qed

lemma create_new_cases:
  assumes "create_new h fs name_arg target_path python_executable with_pip = Inr d"
  shows "\<not> is_valid d \<or> (\<exists>fs' p. snd (get_venv_info h fs' p) = Inr d)"
  using assms
  by (auto simp: create_new_def Let_def split: sum.splits if_splits option.splits)

lemma devenv_venv_create_cases:
  assumes "devenv_venv_create h fs name_arg path_arg python_executable with_pip = Inr d"
  shows "\<not> is_valid d \<or> (\<exists>fs' p. snd (get_venv_info h fs' p) = Inr d)"
  using assms
  by (auto simp: devenv_venv_create_def Let_def
           split: sum.splits if_splits option.splits dest: create_new_cases)

text \<open>
  C5. Every descriptor built by probing, by listing or by creation satisfies the
  invariant: a valid descriptor does not carry the version \<^verbatim>\<open>"unknown"\<close>.
\<close>

theorem C5_descriptor_invariant:
  "(\<forall>d. snd (get_venv_info h fs venv_path) = Inr d \<longrightarrow> venv_invariant d)
   \<and> (\<forall>ds. devenv_venv_list h fs working_dir include_global name_pattern order
               = Some (Inr ds) \<longrightarrow> (\<forall>d\<in>set ds. venv_invariant d))
   \<and> (\<forall>d. devenv_venv_create h fs name_arg path_arg python_executable with_pip = Inr d
            \<longrightarrow> venv_invariant d)"
proof (intro conjI allI impI ballI)
  fix d
  assume "snd (get_venv_info h fs venv_path) = Inr d"
  then show "venv_invariant d"
    by (rule get_venv_info_invariant)
next
  fix ds d
  assume "devenv_venv_list h fs working_dir include_global name_pattern order = Some (Inr ds)"
    and "d \<in> set ds"
  then obtain p where "snd (get_venv_info h fs p) = Inr d"
    using devenv_venv_list_members by blast
  then show "venv_invariant d"
    by (rule get_venv_info_invariant)
next
  fix d
  assume "devenv_venv_create h fs name_arg path_arg python_executable with_pip = Inr d"
  from devenv_venv_create_cases [OF this] show "venv_invariant d"
    by (auto simp: venv_invariant_def dest: get_venv_info_invariant)
qed

text \<open>
  Two valid descriptors: \<^verbatim>\<open>/envs/alpha\<close> probed, and \<^verbatim>\<open>/work/venv\<close> returned by a
  creation that finds it already there.
\<close>

theorem C5_witness:
  "snd (get_venv_info demo_host demo_fs [''envs'', ''alpha'']) =
     Inr \<lparr>name = ''alpha'', path = ''/envs/alpha'', python_version = ''3.11.5'',
          packages_count = 2, is_valid = True\<rparr>
   \<and> devenv_venv_create demo_host demo_fs ''venv'' (Some ''/work'') None True =
     Inr \<lparr>name = ''venv'', path = ''/work/venv'', python_version = ''3.12.1'',
          packages_count = 0, is_valid = True\<rparr>
   \<and> venv_invariant \<lparr>name = ''alpha'', path = ''/envs/alpha'', python_version = ''3.11.5'',
          packages_count = 2, is_valid = True\<rparr>
   \<and> venv_invariant \<lparr>name = ''venv'', path = ''/work/venv'', python_version = ''3.12.1'',
          packages_count = 0, is_valid = True\<rparr>"
proof -
  have probe: "snd (get_venv_info demo_host demo_fs [''envs'', ''alpha'']) =
     Inr \<lparr>name = ''alpha'', path = ''/envs/alpha'', python_version = ''3.11.5'',
          packages_count = 2, is_valid = True\<rparr>"
    by code_simp
  have create: "devenv_venv_create demo_host demo_fs ''venv'' (Some ''/work'') None True =
     Inr \<lparr>name = ''venv'', path = ''/work/venv'', python_version = ''3.12.1'',
          packages_count = 0, is_valid = True\<rparr>"
    by code_simp
  from C5_descriptor_invariant
         [of demo_host demo_fs "[''envs'', ''alpha'']" "''/work''" False None "[0, 1]"
             "''venv''" "Some ''/work''" None True]
       probe create
  show ?thesis by simp
qed

subsection \<open>The order of a listing\<close>

text \<open>
  When discovery returns and every probe returns a descriptor, the listing is the
  list of these descriptors in the order of the identifiers, for every order of
  completion in which each probe finishes.
\<close>

lemma list_in_ordered:
  assumes "discover_venvs h fs work_path include_global name_pattern = Inr venv_paths"
    and "map (\<lambda>p. snd (get_venv_info h fs p)) venv_paths = map Inr ds"
    and "{..<length venv_paths} \<subseteq> set order"
  shows "list_in h fs work_path include_global name_pattern order = Some (Inr ds)"
proof -
  have "length ds = length venv_paths"
    using assms(2) by (metis length_map)
  with assms(3) have gathered: "gather order (map Inr ds) = Some (Inr ds)"
    by (simp add: gather_all_values)
  have located: "\<exists>g. (if include_global then get_default_venv_location h else Inr []) = Inr g"
    using assms(1) by (auto simp: discover_venvs_def split: sum.splits if_splits)
  from located gathered assms(1,2) show ?thesis
    by (auto simp: list_in_def)
qed

text \<open>
  C6. The Fan-out Coordinator is to return one descriptor for each of the \<open>K\<close>
  identifiers, in their order. It returns none when a probe raises: \<^verbatim>\<open>/mixed\<close>
  holds two environments, the package manager of the second prints \<^verbatim>\<open>42\<close>, its probe
  raises \<^verbatim>\<open>TypeError\<close>, and \<^verbatim>\<open>gather\<close>, called without \<^verbatim>\<open>return_exceptions\<close>, raises it
  in turn, in whichever order the two probes finish.
\<close>

theorem C6_failing_input:
  "devenv_venv_list demo_host demo_fs ''/mixed'' False None [0, 1] = Some (Inl TypeError)
   \<and> devenv_venv_list demo_host demo_fs ''/mixed'' False None [1, 0] = Some (Inl TypeError)"
  by code_simp

subsection \<open>The Locator\<close>


lemma py_and_absent: "a = Inr False \<Longrightarrow> py_and a b = Inr False"
  by (simp add: py_and_def)






text \<open>Discovery with a name pattern, in terms of discovery without one.\<close>

lemma discover_venvs_pattern:
  "discover_venvs h fs working_dir include_global (Some pat) =
     (case discover_venvs h fs working_dir include_global None of
        Inl e \<Rightarrow> Inl e
      | Inr candidates \<Rightarrow>
          Inr (if pat = [] then candidates else filter_by_name h pat candidates))"
  by (simp add: discover_venvs_def split: sum.splits)











text \<open>
  C8, as first stated: whenever a name pattern is supplied, the validated candidates
  are filtered by matching their final segment against it. The empty pattern is a
  pattern that no name of a candidate matches, yet \<^verbatim>\<open>if name_pattern:\<close> takes it for
  no pattern and both local environments of \<^verbatim>\<open>/work\<close> are returned.
\<close>

theorem C8_counterexample:
  "discover_venvs demo_host demo_fs [''work''] False None
     = Inr [[''work'', ''venv''], [''work'', ''.venv'']]
   \<and> filter_by_name demo_host [] [[''work'', ''venv''], [''work'', ''.venv'']] = []
   \<and> discover_venvs demo_host demo_fs [''work''] False (Some [])
     = Inr [[''work'', ''venv''], [''work'', ''.venv'']]"
  by code_simp

text \<open>
  C8. When a name pattern that is not empty is supplied, the validated candidates
  (what the Locator returns without a pattern) are filtered by matching the final
  path segment of each against the pattern with \<^verbatim>\<open>fnmatch\<close>: those that do not match
  are dropped and the others keep their order. The empty pattern filters nothing.
\<close>

theorem C8_name_pattern_filter:
  assumes "discover_venvs h fs working_dir include_global None = Inr candidates"
  shows "(pat \<noteq> [] \<longrightarrow>
            discover_venvs h fs working_dir include_global (Some pat)
              = Inr (filter (\<lambda>venv_path. fnmatch h (path_name venv_path) pat) candidates))
       \<and> discover_venvs h fs working_dir include_global (Some []) = Inr candidates"
  using assms by (simp add: discover_venvs_pattern filter_by_name_def)

text \<open>
  The scenario of the specification: of \<^verbatim>\<open>proj-a\<close>, \<^verbatim>\<open>other\<close> and \<^verbatim>\<open>proj-b\<close> in the
  registry, the pattern \<^verbatim>\<open>proj-*\<close> keeps the first and the last, in listing order.
\<close>

theorem C8_witness:
  "discover_venvs demo_host demo_fs [''work''] True None =
     Inr [[''work'', ''venv''], [''work'', ''.venv''],
          [''home'', ''.venvs'', ''proj-a''], [''home'', ''.venvs'', ''other''],
          [''home'', ''.venvs'', ''proj-b'']]
   \<and> discover_venvs demo_host demo_fs [''work''] True (Some ''proj-*'') =
     Inr [[''home'', ''.venvs'', ''proj-a''], [''home'', ''.venvs'', ''proj-b'']]"
proof -
  let ?candidates = "[[''work'', ''venv''], [''work'', ''.venv''],
          [''home'', ''.venvs'', ''proj-a''], [''home'', ''.venvs'', ''other''],
          [''home'', ''.venvs'', ''proj-b'']]"
  have all: "discover_venvs demo_host demo_fs [''work''] True None = Inr ?candidates"
    by code_simp
  have pat: "''proj-*'' \<noteq> []"
    by simp
  have matching:
    "filter (\<lambda>venv_path. fnmatch demo_host (path_name venv_path) ''proj-*'') ?candidates
       = [[''home'', ''.venvs'', ''proj-a''], [''home'', ''.venvs'', ''proj-b'']]"
    by code_simp
  from C8_name_pattern_filter [OF all, of "''proj-*''"] pat
  have "discover_venvs demo_host demo_fs [''work''] True (Some ''proj-*'') =
          Inr (filter (\<lambda>venv_path. fnmatch demo_host (path_name venv_path) ''proj-*'')
                 ?candidates)"
    by blast
  with all show ?thesis
    unfolding matching by blast
qed

subsection \<open>The working directory of a listing\<close>




end
